theory Spec2Isabelle
  imports Main "HOL-Library.Word"
begin

unbundle bit_operations_syntax

section \<open>Data model of backend/src/helpers/secrets.ts\<close>

text \<open>
  A Mongo \<open>Types.ObjectId\<close> is a 12-byte value; the helpers only compare such
  values for equality. A Node \<open>Buffer\<close> is a list of bytes.
\<close>

type_synonym object_id = "96 word"
type_synonym byte = "8 word"

text \<open>The element type of \<open>acceptedRoles: Array<'admin' | 'member'>\<close>.\<close>

datatype role = Admin | Member

text \<open>
  Modelled from the spec: the interface \<open>ISecret\<close> is declared in \<open>../models\<close>,
  which is not part of the sources at hand. The fields are the ones the data model lists
  for a secret (identifier, owning workspace, environment tag, name, blind-index value);
  the helpers read \<open>workspace\<close> and \<open>environment\<close> and query by \<open>_id\<close>.
\<close>

record secret =
  secret_id :: object_id
  workspace :: object_id
  environment :: string
  secret_name :: string
  secret_blind_index :: string

text \<open>
  The errors built by \<open>SecretNotFoundError\<close>, \<open>BadRequestError\<close> and
  \<open>UnauthorizedRequestError\<close> of \<open>../utils/errors\<close>, each with its message.
  \<open>OtherError\<close> stands for any other value a collaborator may throw.
\<close>

datatype error =
    SecretNotFoundError string
  | BadRequestError string
  | UnauthorizedRequestError string
  | OtherError string

text \<open>
  \<open>authPayload: IUser | IServiceAccount | IServiceTokenData\<close>. The helpers inspect
  the payload with \<open>instanceof\<close> against the three model classes; the payload
  documents themselves are opaque to them, hence the type parameters. \<open>OtherObject\<close>
  is a payload that is an instance of none of the three classes.
\<close>

datatype ('u, 'a, 't) auth_payload =
    is_User: User (the_User: 'u)
  | is_ServiceAccount: ServiceAccount (the_ServiceAccount: 'a)
  | is_ServiceTokenData: ServiceTokenData (the_ServiceTokenData: 't)
  | OtherObject

record ('u, 'a, 't) auth_data =
  authMode :: string
  authPayload :: "('u, 'a, 't) auth_payload"

text \<open>
  The four string constants imported from \<open>../variables\<close>. Their values are not
  part of the sources at hand, so they are a parameter of the helpers.
\<close>

record variables =
  AUTH_MODE_JWT :: string
  AUTH_MODE_SERVICE_ACCOUNT :: string
  AUTH_MODE_SERVICE_TOKEN :: string
  AUTH_MODE_API_KEY :: string

section \<open>Collaborators\<close>

subsection \<open>The secret collection\<close>

text \<open>
  The Mongo collection behind the \<open>Secret\<close> model is a list of documents.
  \<open>Secret.findById(id)\<close> yields the first document whose \<open>_id\<close> is \<open>id\<close>, or
  \<open>null\<close>; \<open>Secret.find({_id: {$in: ids}})\<close> yields, in collection order, every
  document whose \<open>_id\<close> occurs in \<open>ids\<close>, each document once.
\<close>

type_synonym secret_collection = "secret list"

definition Secret_findById :: "secret_collection \<Rightarrow> object_id \<Rightarrow> secret option" where
  "Secret_findById db i = List.find (\<lambda>s. secret_id s = i) db"

definition Secret_find_in :: "secret_collection \<Rightarrow> object_id list \<Rightarrow> secret list" where
  "Secret_find_in db ids = filter (\<lambda>s. secret_id s \<in> set ids) db"

subsection \<open>The validators\<close>

text \<open>
  The six validators the helpers delegate to live in \<open>../helpers/user\<close>,
  \<open>../helpers/serviceAccount\<close> and \<open>../helpers/serviceTokenData\<close>. A call to one
  of them is recorded with exactly the arguments of the object literal the helper
  passes.
\<close>

datatype ('u, 'a, 't) validator_call =
    ValidateUserClientForSecret 'u secret "role list" "string list"
  | ValidateServiceAccountClientForWorkspace 'a object_id string "string list"
  | ValidateServiceTokenDataClientForWorkspace 't object_id string
  | ValidateUserClientForSecrets 'u "secret list" "string list"
  | ValidateServiceAccountClientForSecrets 'a "secret list" "string list"
  | ValidateServiceTokenDataClientForSecrets 't "secret list" "string list"

text \<open>
  The validators are black boxes: a call either returns normally (\<open>None\<close>) or throws
  (\<open>Some e\<close>). How each call ends is a parameter of the helpers.
\<close>

type_synonym ('u, 'a, 't) validators = "('u, 'a, 't) validator_call \<Rightarrow> error option"

text \<open>The \<open>requiredPermissions\<close> argument of a call, when the call has one.\<close>

fun call_requiredPermissions :: "('u, 'a, 't) validator_call \<Rightarrow> string list option" where
  "call_requiredPermissions (ValidateUserClientForSecret u s rs ps) = Some ps"
| "call_requiredPermissions (ValidateServiceAccountClientForWorkspace a w e ps) = Some ps"
| "call_requiredPermissions (ValidateServiceTokenDataClientForWorkspace t w e) = None"
| "call_requiredPermissions (ValidateUserClientForSecrets u ss ps) = Some ps"
| "call_requiredPermissions (ValidateServiceAccountClientForSecrets a ss ps) = Some ps"
| "call_requiredPermissions (ValidateServiceTokenDataClientForSecrets t ss ps) = Some ps"

section \<open>The authorization helpers\<close>

text \<open>
  A run of a helper yields the validator calls it made, in order, and either the error
  it threw (\<open>Inl\<close>) or the value it returned (\<open>Inr\<close>).
\<close>

type_synonym ('u, 'a, 't, 'r) outcome = "('u, 'a, 't) validator_call list \<times> (error + 'r)"

text \<open>\<open>throw e\<close> before any validator has been called.\<close>

definition throw :: "error \<Rightarrow> ('u, 'a, 't, 'r) outcome" where
  "throw e = ([], Inl e)"

text \<open>
  \<open>await validate...(args); return r\<close>: the call is made; if it throws, the error
  leaves the helper as it is (there is no \<open>try\<close> around it), otherwise \<open>r\<close> is
  returned.
\<close>

definition await_then_return ::
  "('u, 'a, 't) validators \<Rightarrow> ('u, 'a, 't) validator_call \<Rightarrow> 'r \<Rightarrow> ('u, 'a, 't, 'r) outcome" where
  "await_then_return V c r = ([c], case V c of None \<Rightarrow> Inr r | Some e \<Rightarrow> Inl e)"

definition validateClientForSecret ::
  "variables \<Rightarrow> ('u, 'a, 't) validators \<Rightarrow> secret_collection \<Rightarrow> ('u, 'a, 't) auth_data \<Rightarrow>
   object_id \<Rightarrow> role list \<Rightarrow> string list \<Rightarrow> ('u, 'a, 't, secret) outcome" where
  "validateClientForSecret M V db authData secretId acceptedRoles requiredPermissions =
    (case Secret_findById db secretId of
      None \<Rightarrow> throw (SecretNotFoundError ''Failed to find secret'')
    | Some secret \<Rightarrow>
        if authMode authData = AUTH_MODE_JWT M \<and> is_User (authPayload authData) then
          await_then_return V
            (ValidateUserClientForSecret (the_User (authPayload authData)) secret
               acceptedRoles requiredPermissions)
            secret
        else if authMode authData = AUTH_MODE_SERVICE_ACCOUNT M
                \<and> is_ServiceAccount (authPayload authData) then
          await_then_return V
            (ValidateServiceAccountClientForWorkspace (the_ServiceAccount (authPayload authData))
               (workspace secret) (environment secret) requiredPermissions)
            secret
        else if authMode authData = AUTH_MODE_SERVICE_TOKEN M
                \<and> is_ServiceTokenData (authPayload authData) then
          await_then_return V
            (ValidateServiceTokenDataClientForWorkspace
               (the_ServiceTokenData (authPayload authData))
               (workspace secret) (environment secret))
            secret
        else if authMode authData = AUTH_MODE_API_KEY M \<and> is_User (authPayload authData) then
          await_then_return V
            (ValidateUserClientForSecret (the_User (authPayload authData)) secret
               acceptedRoles requiredPermissions)
            secret
        else throw (UnauthorizedRequestError ''Failed client authorization for secret''))"

definition validateClientForSecrets ::
  "variables \<Rightarrow> ('u, 'a, 't) validators \<Rightarrow> secret_collection \<Rightarrow> ('u, 'a, 't) auth_data \<Rightarrow>
   object_id list \<Rightarrow> string list \<Rightarrow> ('u, 'a, 't, secret list) outcome" where
  "validateClientForSecrets M V db authData secretIds requiredPermissions =
    (let secrets = Secret_find_in db secretIds in
     if length secrets \<noteq> length secretIds then
       throw (BadRequestError ''Failed to validate non-existent secrets'')
     else if authMode authData = AUTH_MODE_JWT M \<and> is_User (authPayload authData) then
       await_then_return V
         (ValidateUserClientForSecrets (the_User (authPayload authData)) secrets
            requiredPermissions)
         secrets
     else if authMode authData = AUTH_MODE_SERVICE_ACCOUNT M
             \<and> is_ServiceAccount (authPayload authData) then
       await_then_return V
         (ValidateServiceAccountClientForSecrets (the_ServiceAccount (authPayload authData))
            secrets requiredPermissions)
         secrets
     else if authMode authData = AUTH_MODE_SERVICE_TOKEN M
             \<and> is_ServiceTokenData (authPayload authData) then
       await_then_return V
         (ValidateServiceTokenDataClientForSecrets (the_ServiceTokenData (authPayload authData))
            secrets requiredPermissions)
         secrets
     else if authMode authData = AUTH_MODE_API_KEY M \<and> is_User (authPayload authData) then
       await_then_return V
         (ValidateUserClientForSecrets (the_User (authPayload authData)) secrets
            requiredPermissions)
         secrets
     else throw (UnauthorizedRequestError ''Failed client authorization for secrets resource''))"

section \<open>The blind-index helpers\<close>

subsection \<open>Collaborators: entropy, argon2, base64\<close>

text \<open>
  \<open>crypto.randomBytes(n)\<close> draws \<open>n\<close> fresh bytes from the operating system's
  entropy. The entropy still to come is an explicit state: the sequence of bytes that
  later draws will see. A draw returns the first \<open>n\<close> of them and leaves the rest.
\<close>

type_synonym entropy = "nat \<Rightarrow> byte"

definition crypto_randomBytes :: "nat \<Rightarrow> entropy \<Rightarrow> byte list \<times> entropy" where
  "crypto_randomBytes n src = (map src [0..<n], \<lambda>i. src (n + i))"

text \<open>
  The options object passed to \<open>argon2.hash\<close>. With \<open>raw: true\<close> the library
  resolves to a \<open>Buffer\<close> holding the digest. The hash function itself belongs to the
  \<open>argon2\<close> package and is a parameter of the helper.
\<close>

datatype argon2_type = Argon2d | Argon2i | Argon2id

record argon2_options =
  hash_type :: argon2_type
  salt :: "byte list"
  saltLength :: nat
  memoryCost :: nat
  hashLength :: nat
  parallelism :: nat
  raw :: bool

type_synonym argon2_hash = "string \<Rightarrow> argon2_options \<Rightarrow> byte list"

text \<open>
  \<open>Buffer.prototype.toString('base64')\<close>: the standard alphabet, three bytes to four
  characters, the last group padded with \<open>=\<close>.
\<close>

definition base64_alphabet :: string where
  "base64_alphabet = ''ABCDEFGHIJKLMNOPQRSTUVWXYZabcdefghijklmnopqrstuvwxyz0123456789+/''"

definition base64_char :: "byte \<Rightarrow> char" where
  "base64_char w = base64_alphabet ! unat w"

fun toString_base64 :: "byte list \<Rightarrow> string" where
  "toString_base64 (a # b # c # rest) =
     base64_char (drop_bit 2 a)
     # base64_char (push_bit 4 (a AND 3) OR drop_bit 4 b)
     # base64_char (push_bit 2 (b AND 15) OR drop_bit 6 c)
     # base64_char (c AND 63)
     # toString_base64 rest"
| "toString_base64 [a, b] =
     [base64_char (drop_bit 2 a),
      base64_char (push_bit 4 (a AND 3) OR drop_bit 4 b),
      base64_char (push_bit 2 (b AND 15)),
      CHR ''='']"
| "toString_base64 [a] =
     [base64_char (drop_bit 2 a),
      base64_char (push_bit 4 (a AND 3)),
      CHR ''='', CHR ''='']"
| "toString_base64 [] = []"

subsection \<open>createSecretBlindIndexHelper\<close>

text \<open>
  The helper draws 16 random bytes, hashes \<open>secretName\<close> with them as the salt and
  returns the digest in base64. \<open>workspaceId\<close> is a parameter that the body never
  reads: the lookup of the workspace's blind-index data is commented out in the source.
  The result is paired with the entropy left after the draw.
\<close>

definition createSecretBlindIndexHelper ::
  "argon2_hash \<Rightarrow> entropy \<Rightarrow> string \<Rightarrow> object_id \<Rightarrow> string \<times> entropy" where
  "createSecretBlindIndexHelper argon2 src secretName workspaceId =
    (let (randomBytes, src') = crypto_randomBytes 16 src;
         secretBlindIndex =
           toString_base64
             (argon2 secretName
                \<lparr>hash_type = Argon2id, salt = randomBytes, saltLength = 16,
                 memoryCost = 65536, hashLength = 32, parallelism = 1, raw = True\<rparr>)
     in (secretBlindIndex, src'))"

subsection \<open>getSecretBlindIndexHelper\<close>

text \<open>
  Modelled from the spec: the model \<open>SecretBlindIndexData\<close> is declared in
  \<open>../models\<close>, which is not part of the sources at hand. A document is the
  per-workspace salt record of the data model: the owning workspace and the salt
  material. \<open>SecretBlindIndexData.findOne({workspace: workspaceId})\<close> yields the first
  document of that workspace, or \<open>null\<close>.
\<close>

record secretBlindIndexData =
  sbid_workspace :: object_id
  sbid_salt :: "byte list"

definition SecretBlindIndexData_findOne ::
  "secretBlindIndexData list \<Rightarrow> object_id \<Rightarrow> secretBlindIndexData option" where
  "SecretBlindIndexData_findOne coll workspaceId =
     List.find (\<lambda>d. sbid_workspace d = workspaceId) coll"

text \<open>
  The helper looks the workspace's document up, has an empty \<open>if\<close> for the case that
  there is none, and ends without a \<open>return\<close>: it resolves to \<open>undefined\<close>, which
  is \<open>None\<close> here.
\<close>

definition getSecretBlindIndexHelper ::
  "secretBlindIndexData list \<Rightarrow> string \<Rightarrow> object_id \<Rightarrow> string option" where
  "getSecretBlindIndexHelper coll secretName workspaceId =
    (let secretBlindIndexData = SecretBlindIndexData_findOne coll workspaceId in
     if secretBlindIndexData = None then None else None)"

section \<open>Notions used to state the properties\<close>

text \<open>
  The authentication mode is one of the four the helpers know.
\<close>

definition recognised_kind :: "variables \<Rightarrow> string \<Rightarrow> bool" where
  "recognised_kind M m \<longleftrightarrow>
     m = AUTH_MODE_JWT M \<or> m = AUTH_MODE_SERVICE_ACCOUNT M
     \<or> m = AUTH_MODE_SERVICE_TOKEN M \<or> m = AUTH_MODE_API_KEY M"

text \<open>
  The payload is not an instance of the class that goes with the mode: a user document
  for the JWT and the API-key modes, a service-account document for the service-account
  mode, a service-token document for the service-token mode.
\<close>

definition payload_disagrees :: "variables \<Rightarrow> ('u, 'a, 't) auth_data \<Rightarrow> bool" where
  "payload_disagrees M authData \<longleftrightarrow>
     (authMode authData = AUTH_MODE_JWT M \<and> \<not> is_User (authPayload authData))
     \<or> (authMode authData = AUTH_MODE_SERVICE_ACCOUNT M
          \<and> \<not> is_ServiceAccount (authPayload authData))
     \<or> (authMode authData = AUTH_MODE_SERVICE_TOKEN M
          \<and> \<not> is_ServiceTokenData (authPayload authData))
     \<or> (authMode authData = AUTH_MODE_API_KEY M \<and> \<not> is_User (authPayload authData))"

text \<open>The four mode constants are four different strings.\<close>

definition distinct_modes :: "variables \<Rightarrow> bool" where
  "distinct_modes M \<longleftrightarrow>
     distinct [AUTH_MODE_JWT M, AUTH_MODE_SERVICE_ACCOUNT M,
               AUTH_MODE_SERVICE_TOKEN M, AUTH_MODE_API_KEY M]"

text \<open>None of the recorded calls was given a \<open>requiredPermissions\<close> argument.\<close>

fun no_permission_list :: "('u, 'a, 't) validator_call list \<Rightarrow> bool" where
  "no_permission_list [] = True"
| "no_permission_list (c # cs) = (call_requiredPermissions c = None \<and> no_permission_list cs)"


section \<open>Concrete inputs\<close>

text \<open>
  Values on which the helpers are run below. \<open>sample_argon2\<close> is a stand-in with the
  interface of \<open>argon2.hash\<close> in raw mode (a digest of \<open>hashLength\<close> bytes that
  depends on the salt and on the password), not the real function.
\<close>

definition sample_variables :: variables where
  "sample_variables =
     \<lparr>AUTH_MODE_JWT = ''jwt'', AUTH_MODE_SERVICE_ACCOUNT = ''serviceAccount'',
      AUTH_MODE_SERVICE_TOKEN = ''serviceToken'', AUTH_MODE_API_KEY = ''apiKey''\<rparr>"

definition S1 :: secret where
  "S1 = \<lparr>secret_id = 1, workspace = 101, environment = ''prod'',
         secret_name = ''DB_PASSWORD'', secret_blind_index = []\<rparr>"

definition S2 :: secret where
  "S2 = \<lparr>secret_id = 2, workspace = 101, environment = ''dev'',
         secret_name = ''API_TOKEN'', secret_blind_index = []\<rparr>"

definition sample_db :: secret_collection where
  "sample_db = [S1, S2]"

definition byte_of_char :: "char \<Rightarrow> byte" where
  "byte_of_char c = of_char c"

definition sample_argon2 :: argon2_hash where
  "sample_argon2 password opts =
     take (hashLength opts)
       (salt opts @ map byte_of_char password @ replicate (hashLength opts) 0)"

definition sample_entropy :: entropy where
  "sample_entropy i = of_nat i"

definition sample_salts :: "secretBlindIndexData list" where
  "sample_salts = [\<lparr>sbid_workspace = 101, sbid_salt = [7, 7, 7, 7, 7, 7, 7, 7, 7, 7, 7, 7, 7, 7, 7, 7]\<rparr>]"

type_synonym sample_payload = "(string, string, string) auth_payload"

definition allow_all :: "(string, string, string) validators" where
  "allow_all c = None"

definition deny_all :: "(string, string, string) validators" where
  "deny_all c = Some (UnauthorizedRequestError ''Failed to validate membership'')"

section \<open>Facts about the collaborators and the concrete inputs\<close>

lemma Secret_findById_absent:
  "secretId \<notin> set (map secret_id db) \<Longrightarrow> Secret_findById db secretId = None"
  by (auto simp: Secret_findById_def find_None_iff)

lemma Secret_findById_S1: "Secret_findById sample_db 1 = Some S1"
  by (simp add: Secret_findById_def sample_db_def S1_def)

lemma Secret_find_in_1_3: "Secret_find_in sample_db [1, 3] = [S1]"
  by (simp add: Secret_find_in_def sample_db_def S1_def S2_def)

lemma Secret_find_in_1_2: "Secret_find_in sample_db [1, 2] = [S1, S2]"
  by (simp add: Secret_find_in_def sample_db_def S1_def S2_def)

lemma Secret_find_in_1: "Secret_find_in sample_db [1] = [S1]"
  by (simp add: Secret_find_in_def sample_db_def S1_def S2_def)

lemma Secret_find_in_1_1: "Secret_find_in sample_db [1, 1] = [S1]"
  by (simp add: Secret_find_in_def sample_db_def S1_def S2_def)

lemma sample_db_ids: "map secret_id sample_db = [1, 2]"
  by (simp add: sample_db_def S1_def S2_def)

lemma sample_modes:
  "AUTH_MODE_JWT sample_variables = ''jwt''"
  "AUTH_MODE_SERVICE_ACCOUNT sample_variables = ''serviceAccount''"
  "AUTH_MODE_SERVICE_TOKEN sample_variables = ''serviceToken''"
  "AUTH_MODE_API_KEY sample_variables = ''apiKey''"
  by (simp_all add: sample_variables_def)

lemma sample_modes_distinct: "distinct_modes sample_variables"
  by (simp add: distinct_modes_def sample_modes)

section \<open>Resolution failures\<close>

text \<open>
  C4. If the secret identifier is the \<open>_id\<close> of no document of the collection,
  \<open>validateClientForSecret\<close> throws \<open>SecretNotFoundError\<close>, whatever the
  authentication data, and has called no validator by then.
\<close>

theorem validateClientForSecret_missing_NotFound:
  assumes "secretId \<notin> set (map secret_id db)"
  shows "validateClientForSecret M V db authData secretId acceptedRoles requiredPermissions
         = ([], Inl (SecretNotFoundError ''Failed to find secret''))"
  using Secret_findById_absent[OF assms]
  by (simp add: validateClientForSecret_def throw_def)

theorem validateClientForSecret_missing_NotFound_witness:
  "3 \<notin> set (map secret_id sample_db) \<and>
   validateClientForSecret sample_variables allow_all sample_db
     \<lparr>authMode = ''jwt'', authPayload = User ''alice''\<rparr> 3 [Member] [''read'']
   = ([], Inl (SecretNotFoundError ''Failed to find secret''))"
proof -
  have h: "3 \<notin> set (map secret_id sample_db)" by (simp add: sample_db_ids)
  show ?thesis
    using h validateClientForSecret_missing_NotFound[OF h] by simp
qed

text \<open>
  C3. If the number of documents the collection returns for \<open>secretIds\<close> differs from
  the number of requested ids, \<open>validateClientForSecrets\<close> throws
  \<open>BadRequestError\<close>, whatever the authentication data, and has called no validator
  by then.
\<close>

theorem validateClientForSecrets_count_mismatch_BadRequest:
  assumes "length (Secret_find_in db secretIds) \<noteq> length secretIds"
  shows "validateClientForSecrets M V db authData secretIds requiredPermissions
         = ([], Inl (BadRequestError ''Failed to validate non-existent secrets''))"
  using assms by (simp add: validateClientForSecrets_def throw_def)

theorem validateClientForSecrets_count_mismatch_BadRequest_witness:
  "length (Secret_find_in sample_db [1, 3]) \<noteq> length [1, 3 :: object_id] \<and>
   validateClientForSecrets sample_variables allow_all sample_db
     \<lparr>authMode = ''jwt'', authPayload = User ''alice''\<rparr> [1, 3] [''read'']
   = ([], Inl (BadRequestError ''Failed to validate non-existent secrets''))"
proof -
  have h: "length (Secret_find_in sample_db [1, 3]) \<noteq> length [1, 3 :: object_id]"
    by (simp add: Secret_find_in_1_3)
  show ?thesis
    using h validateClientForSecrets_count_mismatch_BadRequest[OF h] by simp
qed

section \<open>Dispatch on the authentication mode\<close>

lemma no_case_applies:
  fixes m j sa st ak :: string and u a t :: bool
  assumes "distinct [j, sa, st, ak]"
    and "\<not> (m = j \<or> m = sa \<or> m = st \<or> m = ak)
         \<or> ((m = j \<and> \<not> u) \<or> (m = sa \<and> \<not> a) \<or> (m = st \<and> \<not> t) \<or> (m = ak \<and> \<not> u))"
  shows "(m = j \<and> u) = False" and "(m = sa \<and> a) = False"
    and "(m = st \<and> t) = False" and "(m = ak \<and> u) = False"
  using assms by auto

lemma no_dispatch_single:
  assumes "distinct_modes M"
    and "\<not> recognised_kind M (authMode authData) \<or> payload_disagrees M authData"
    and "Secret_findById db secretId = Some s"
  shows "validateClientForSecret M V db authData secretId acceptedRoles requiredPermissions
         = ([], Inl (UnauthorizedRequestError ''Failed client authorization for secret''))"
proof -
  note nb = no_case_applies[OF assms(1)[unfolded distinct_modes_def]
      assms(2)[unfolded recognised_kind_def payload_disagrees_def]]
  show ?thesis
    unfolding validateClientForSecret_def
    by (simp only: assms(3) nb option.case if_False throw_def)
qed

lemma no_dispatch_batch:
  assumes "distinct_modes M"
    and "\<not> recognised_kind M (authMode authData) \<or> payload_disagrees M authData"
    and "length (Secret_find_in db secretIds) = length secretIds"
  shows "validateClientForSecrets M V db authData secretIds requiredPermissions
         = ([], Inl (UnauthorizedRequestError
                       ''Failed client authorization for secrets resource''))"
proof -
  note nb = no_case_applies[OF assms(1)[unfolded distinct_modes_def]
      assms(2)[unfolded recognised_kind_def payload_disagrees_def]]
  show ?thesis
    unfolding validateClientForSecrets_def Let_def
    by (simp only: assms(3) nb if_False throw_def simp_thms)
qed

text \<open>
  C5. Let the four mode constants be different strings. If the authentication mode is
  none of the four, or the payload is not an instance of the class that goes with the
  mode, then \<open>validateClientForSecret\<close> on an existing secret and
  \<open>validateClientForSecrets\<close> on a batch that resolves in full both throw
  \<open>UnauthorizedRequestError\<close> and call no validator.
\<close>

theorem unrecognised_or_mismatched_Unauthorized:
  assumes "distinct_modes M"
    and "\<not> recognised_kind M (authMode authData) \<or> payload_disagrees M authData"
  shows "(Secret_findById db secretId = Some s \<longrightarrow>
            validateClientForSecret M V db authData secretId acceptedRoles requiredPermissions
            = ([], Inl (UnauthorizedRequestError ''Failed client authorization for secret'')))
       \<and> (length (Secret_find_in db secretIds) = length secretIds \<longrightarrow>
            validateClientForSecrets M V db authData secretIds requiredPermissions
            = ([], Inl (UnauthorizedRequestError
                          ''Failed client authorization for secrets resource'')))"
  using no_dispatch_single[OF assms] no_dispatch_batch[OF assms] by blast

theorem unrecognised_or_mismatched_Unauthorized_witness:
  "distinct_modes sample_variables
   \<and> \<not> recognised_kind sample_variables ''oauth''
   \<and> payload_disagrees sample_variables
        \<lparr>authMode = ''serviceAccount'', authPayload = (User ''alice'' :: sample_payload)\<rparr>
   \<and> Secret_findById sample_db 1 = Some S1
   \<and> length (Secret_find_in sample_db [1, 2]) = length [1, 2 :: object_id]
   \<and> validateClientForSecret sample_variables allow_all sample_db
        \<lparr>authMode = ''oauth'', authPayload = User ''alice''\<rparr> 1 [Member] [''read'']
      = ([], Inl (UnauthorizedRequestError ''Failed client authorization for secret''))
   \<and> validateClientForSecrets sample_variables allow_all sample_db
        \<lparr>authMode = ''oauth'', authPayload = User ''alice''\<rparr> [1, 2] [''read'']
      = ([], Inl (UnauthorizedRequestError ''Failed client authorization for secrets resource''))
   \<and> validateClientForSecret sample_variables allow_all sample_db
        \<lparr>authMode = ''serviceAccount'', authPayload = User ''alice''\<rparr> 1 [Member] [''read'']
      = ([], Inl (UnauthorizedRequestError ''Failed client authorization for secret''))
   \<and> validateClientForSecrets sample_variables allow_all sample_db
        \<lparr>authMode = ''serviceAccount'', authPayload = User ''alice''\<rparr> [1, 2] [''read'']
      = ([], Inl (UnauthorizedRequestError ''Failed client authorization for secrets resource''))"
proof -
  let ?other = "\<lparr>authMode = ''oauth'', authPayload = (User ''alice'' :: sample_payload)\<rparr>"
  let ?wrong =
    "\<lparr>authMode = ''serviceAccount'', authPayload = (User ''alice'' :: sample_payload)\<rparr>"
  have k: "\<not> recognised_kind sample_variables ''oauth''"
    by (simp add: recognised_kind_def sample_modes)
  have p: "payload_disagrees sample_variables ?wrong"
    by (simp add: payload_disagrees_def sample_modes)
  have f: "Secret_findById sample_db 1 = Some S1" by (rule Secret_findById_S1)
  have l: "length (Secret_find_in sample_db [1, 2]) = length [1, 2 :: object_id]"
    by (simp add: Secret_find_in_1_2)
  have k': "\<not> recognised_kind sample_variables (authMode ?other)
            \<or> payload_disagrees sample_variables ?other"
    using k by simp
  have p': "\<not> recognised_kind sample_variables (authMode ?wrong)
            \<or> payload_disagrees sample_variables ?wrong"
    using p by simp
  note a = unrecognised_or_mismatched_Unauthorized[OF sample_modes_distinct k',
      of sample_db 1 S1 allow_all "[Member]" "[''read'']" "[1, 2]"]
  note b = unrecognised_or_mismatched_Unauthorized[OF sample_modes_distinct p',
      of sample_db 1 S1 allow_all "[Member]" "[''read'']" "[1, 2]"]
  from a b f l k p sample_modes_distinct show ?thesis by blast
qed

text \<open>
  C8. If the secret exists, the mode is one of the four and the payload is an instance of
  the class that goes with it, then \<open>validateClientForSecret\<close> makes exactly one
  validator call; when that call returns normally the helper returns the very document
  that \<open>findById\<close> yielded, and when it throws the helper throws the same error.
\<close>

theorem validateClientForSecret_returns_secret_or_propagates:
  assumes "Secret_findById db secretId = Some s"
    and "recognised_kind M (authMode authData)"
    and "\<not> payload_disagrees M authData"
  shows "\<exists>c. validateClientForSecret M V db authData secretId acceptedRoles requiredPermissions
           = ([c], case V c of None \<Rightarrow> Inr s | Some e \<Rightarrow> Inl e)"
  using assms
  by (auto simp: validateClientForSecret_def await_then_return_def
      recognised_kind_def payload_disagrees_def)

theorem validateClientForSecret_returns_secret_or_propagates_witness:
  "Secret_findById sample_db 1 = Some S1
   \<and> recognised_kind sample_variables ''jwt''
   \<and> \<not> payload_disagrees sample_variables
          \<lparr>authMode = ''jwt'', authPayload = (User ''alice'' :: sample_payload)\<rparr>
   \<and> snd (validateClientForSecret sample_variables allow_all sample_db
             \<lparr>authMode = ''jwt'', authPayload = User ''alice''\<rparr> 1 [Member, Admin] [''read''])
      = Inr S1
   \<and> snd (validateClientForSecret sample_variables deny_all sample_db
             \<lparr>authMode = ''jwt'', authPayload = User ''alice''\<rparr> 1 [Member, Admin] [''read''])
      = Inl (UnauthorizedRequestError ''Failed to validate membership'')"
proof -
  let ?a = "\<lparr>authMode = ''jwt'', authPayload = (User ''alice'' :: sample_payload)\<rparr>"
  have k: "recognised_kind sample_variables ''jwt''"
    by (simp add: recognised_kind_def sample_modes)
  have p: "\<not> payload_disagrees sample_variables ?a"
    by (simp add: payload_disagrees_def sample_modes)
  have k': "recognised_kind sample_variables (authMode ?a)" using k by simp
  note t = validateClientForSecret_returns_secret_or_propagates[OF Secret_findById_S1 k' p]
  from t[of allow_all "[Member, Admin]" "[''read'']"]
  have ok: "snd (validateClientForSecret sample_variables allow_all sample_db ?a 1
                   [Member, Admin] [''read'']) = Inr S1"
    by (auto simp: allow_all_def)
  from t[of deny_all "[Member, Admin]" "[''read'']"]
  have no: "snd (validateClientForSecret sample_variables deny_all sample_db ?a 1
                   [Member, Admin] [''read''])
            = Inl (UnauthorizedRequestError ''Failed to validate membership'')"
    by (auto simp: deny_all_def)
  from Secret_findById_S1 k p ok no show ?thesis by blast
qed

text \<open>
  C6, as the code has it. For a service-token context the single-secret helper calls
  the workspace validator of service tokens with the token, the secret's workspace and
  the secret's environment, and with no permission list; the batch helper calls the
  batch validator of service tokens with the token, the resolved documents and the
  \<open>requiredPermissions\<close> it was given.
\<close>

theorem service_token_dispatch:
  "(Secret_findById db secretId = Some s \<longrightarrow>
      fst (validateClientForSecret M V db
             \<lparr>authMode = AUTH_MODE_SERVICE_TOKEN M, authPayload = ServiceTokenData t\<rparr>
             secretId acceptedRoles requiredPermissions)
      = [ValidateServiceTokenDataClientForWorkspace t (workspace s) (environment s)]
      \<and> no_permission_list
          (fst (validateClientForSecret M V db
             \<lparr>authMode = AUTH_MODE_SERVICE_TOKEN M, authPayload = ServiceTokenData t\<rparr>
             secretId acceptedRoles requiredPermissions)))
   \<and> (length (Secret_find_in db secretIds) = length secretIds \<longrightarrow>
      fst (validateClientForSecrets M V db
             \<lparr>authMode = AUTH_MODE_SERVICE_TOKEN M, authPayload = ServiceTokenData t\<rparr>
             secretIds requiredPermissions)
      = [ValidateServiceTokenDataClientForSecrets t (Secret_find_in db secretIds)
           requiredPermissions])"
  by (simp add: validateClientForSecret_def validateClientForSecrets_def Let_def
      await_then_return_def)

theorem service_token_dispatch_witness:
  "Secret_findById sample_db 1 = Some S1
   \<and> length (Secret_find_in sample_db [1, 2]) = length [1, 2 :: object_id]
   \<and> fst (validateClientForSecret sample_variables allow_all sample_db
             \<lparr>authMode = ''serviceToken'', authPayload = ServiceTokenData ''st.1''\<rparr>
             1 [Member] [''read''])
      = [ValidateServiceTokenDataClientForWorkspace ''st.1'' 101 ''prod'']
   \<and> fst (validateClientForSecrets sample_variables allow_all sample_db
             \<lparr>authMode = ''serviceToken'', authPayload = ServiceTokenData ''st.1''\<rparr>
             [1, 2] [''read''])
      = [ValidateServiceTokenDataClientForSecrets ''st.1'' [S1, S2] [''read'']]"
proof -
  have l: "length (Secret_find_in sample_db [1, 2]) = length [1, 2 :: object_id]"
    by (simp add: Secret_find_in_1_2)
  have w: "workspace S1 = 101" "environment S1 = ''prod''" by (simp_all add: S1_def)
  from service_token_dispatch[of sample_db 1 S1 sample_variables allow_all "''st.1''"
      "[Member]" "[''read'']" "[1, 2]"] Secret_findById_S1 l
  show ?thesis by (simp add: sample_modes Secret_find_in_1_2 w)
qed

text \<open>
  C6, as stated, fails on the batch path: for a service-token context and the
  batch \<open>[S1]\<close> the call that \<open>validateClientForSecrets\<close> makes carries the
  permission list \<open>[read]\<close>.
\<close>

theorem service_token_batch_passes_permissions:
  "\<not> no_permission_list
       (fst (validateClientForSecrets sample_variables allow_all sample_db
               \<lparr>authMode = ''serviceToken'', authPayload = ServiceTokenData ''st.1''\<rparr>
               [1] [''read'']))"
  by (simp add: validateClientForSecrets_def Let_def await_then_return_def sample_modes
      Secret_find_in_1)

lemma user_dispatch_single:
  assumes "Secret_findById db secretId = Some s"
    and "m = AUTH_MODE_JWT M \<or> m = AUTH_MODE_API_KEY M"
  shows "validateClientForSecret M V db \<lparr>authMode = m, authPayload = User u\<rparr>
           secretId acceptedRoles requiredPermissions
         = await_then_return V
             (ValidateUserClientForSecret u s acceptedRoles requiredPermissions) s"
  using assms by (auto simp: validateClientForSecret_def)

lemma user_dispatch_batch:
  assumes "length (Secret_find_in db secretIds) = length secretIds"
    and "m = AUTH_MODE_JWT M \<or> m = AUTH_MODE_API_KEY M"
  shows "validateClientForSecrets M V db \<lparr>authMode = m, authPayload = User u\<rparr>
           secretIds requiredPermissions
         = await_then_return V
             (ValidateUserClientForSecrets u (Secret_find_in db secretIds) requiredPermissions)
             (Secret_find_in db secretIds)"
  using assms by (auto simp: validateClientForSecrets_def Let_def)

lemma user_modes_equal_outcome:
  "validateClientForSecret M V db \<lparr>authMode = AUTH_MODE_JWT M, authPayload = User u\<rparr>
     secretId acceptedRoles requiredPermissions
   = validateClientForSecret M V db \<lparr>authMode = AUTH_MODE_API_KEY M, authPayload = User u\<rparr>
       secretId acceptedRoles requiredPermissions"
  "validateClientForSecrets M V db \<lparr>authMode = AUTH_MODE_JWT M, authPayload = User u\<rparr>
     secretIds requiredPermissions
   = validateClientForSecrets M V db \<lparr>authMode = AUTH_MODE_API_KEY M, authPayload = User u\<rparr>
       secretIds requiredPermissions"
  by (simp_all add: validateClientForSecret_def validateClientForSecrets_def Let_def
      split: option.splits)

text \<open>
  C10. With the same user document \<open>u\<close>, a context in the JWT mode and a context in
  the API-key mode are both dispatched to the user validator with the same arguments:
  for an existing secret \<open>s\<close> each makes the one call
  \<open>validateUserClientForSecret(u, s, acceptedRoles, requiredPermissions)\<close> and ends as
  that call ends; for a batch that resolves in full each makes the one call
  \<open>validateUserClientForSecrets(u, secrets, requiredPermissions)\<close> and ends as that
  call ends. In every case, also when the secret is missing or the batch does not
  resolve, the two modes have the same outcome in both helpers.
\<close>

theorem jwt_and_api_key_same_outcome:
  "(Secret_findById db secretId = Some s \<longrightarrow>
      validateClientForSecret M V db \<lparr>authMode = AUTH_MODE_JWT M, authPayload = User u\<rparr>
        secretId acceptedRoles requiredPermissions
      = await_then_return V
          (ValidateUserClientForSecret u s acceptedRoles requiredPermissions) s
      \<and> validateClientForSecret M V db
          \<lparr>authMode = AUTH_MODE_API_KEY M, authPayload = User u\<rparr>
          secretId acceptedRoles requiredPermissions
        = await_then_return V
            (ValidateUserClientForSecret u s acceptedRoles requiredPermissions) s)
   \<and> (length (Secret_find_in db secretIds) = length secretIds \<longrightarrow>
      validateClientForSecrets M V db \<lparr>authMode = AUTH_MODE_JWT M, authPayload = User u\<rparr>
        secretIds requiredPermissions
      = await_then_return V
          (ValidateUserClientForSecrets u (Secret_find_in db secretIds) requiredPermissions)
          (Secret_find_in db secretIds)
      \<and> validateClientForSecrets M V db
          \<lparr>authMode = AUTH_MODE_API_KEY M, authPayload = User u\<rparr>
          secretIds requiredPermissions
        = await_then_return V
            (ValidateUserClientForSecrets u (Secret_find_in db secretIds) requiredPermissions)
            (Secret_find_in db secretIds))
   \<and> validateClientForSecret M V db \<lparr>authMode = AUTH_MODE_JWT M, authPayload = User u\<rparr>
       secretId acceptedRoles requiredPermissions
     = validateClientForSecret M V db \<lparr>authMode = AUTH_MODE_API_KEY M, authPayload = User u\<rparr>
         secretId acceptedRoles requiredPermissions
   \<and> validateClientForSecrets M V db \<lparr>authMode = AUTH_MODE_JWT M, authPayload = User u\<rparr>
       secretIds requiredPermissions
     = validateClientForSecrets M V db \<lparr>authMode = AUTH_MODE_API_KEY M, authPayload = User u\<rparr>
         secretIds requiredPermissions"
proof (intro conjI impI)
  assume f: "Secret_findById db secretId = Some s"
  show "validateClientForSecret M V db \<lparr>authMode = AUTH_MODE_JWT M, authPayload = User u\<rparr>
          secretId acceptedRoles requiredPermissions
        = await_then_return V
            (ValidateUserClientForSecret u s acceptedRoles requiredPermissions) s"
    by (rule user_dispatch_single[OF f]) simp
  show "validateClientForSecret M V db \<lparr>authMode = AUTH_MODE_API_KEY M, authPayload = User u\<rparr>
          secretId acceptedRoles requiredPermissions
        = await_then_return V
            (ValidateUserClientForSecret u s acceptedRoles requiredPermissions) s"
    by (rule user_dispatch_single[OF f]) simp
next
  assume l: "length (Secret_find_in db secretIds) = length secretIds"
  show "validateClientForSecrets M V db \<lparr>authMode = AUTH_MODE_JWT M, authPayload = User u\<rparr>
          secretIds requiredPermissions
        = await_then_return V
            (ValidateUserClientForSecrets u (Secret_find_in db secretIds) requiredPermissions)
            (Secret_find_in db secretIds)"
    by (rule user_dispatch_batch[OF l]) simp
  show "validateClientForSecrets M V db \<lparr>authMode = AUTH_MODE_API_KEY M, authPayload = User u\<rparr>
          secretIds requiredPermissions
        = await_then_return V
            (ValidateUserClientForSecrets u (Secret_find_in db secretIds) requiredPermissions)
            (Secret_find_in db secretIds)"
    by (rule user_dispatch_batch[OF l]) simp
next
  show "validateClientForSecret M V db \<lparr>authMode = AUTH_MODE_JWT M, authPayload = User u\<rparr>
          secretId acceptedRoles requiredPermissions
        = validateClientForSecret M V db
            \<lparr>authMode = AUTH_MODE_API_KEY M, authPayload = User u\<rparr>
            secretId acceptedRoles requiredPermissions"
    by (rule user_modes_equal_outcome)
  show "validateClientForSecrets M V db \<lparr>authMode = AUTH_MODE_JWT M, authPayload = User u\<rparr>
          secretIds requiredPermissions
        = validateClientForSecrets M V db
            \<lparr>authMode = AUTH_MODE_API_KEY M, authPayload = User u\<rparr>
            secretIds requiredPermissions"
    by (rule user_modes_equal_outcome)
qed

theorem jwt_and_api_key_same_outcome_witness:
  "Secret_findById sample_db 1 = Some S1
   \<and> length (Secret_find_in sample_db [1, 2]) = length [1, 2 :: object_id]
   \<and> validateClientForSecret sample_variables deny_all sample_db
        \<lparr>authMode = ''jwt'', authPayload = User ''alice''\<rparr> 1 [Member, Admin] [''read'']
      = ([ValidateUserClientForSecret ''alice'' S1 [Member, Admin] [''read'']],
         Inl (UnauthorizedRequestError ''Failed to validate membership''))
   \<and> validateClientForSecret sample_variables deny_all sample_db
        \<lparr>authMode = ''apiKey'', authPayload = User ''alice''\<rparr> 1 [Member, Admin] [''read'']
      = ([ValidateUserClientForSecret ''alice'' S1 [Member, Admin] [''read'']],
         Inl (UnauthorizedRequestError ''Failed to validate membership''))
   \<and> validateClientForSecrets sample_variables allow_all sample_db
        \<lparr>authMode = ''jwt'', authPayload = User ''alice''\<rparr> [1, 2] [''read'']
      = ([ValidateUserClientForSecrets ''alice'' [S1, S2] [''read'']], Inr [S1, S2])
   \<and> validateClientForSecrets sample_variables allow_all sample_db
        \<lparr>authMode = ''apiKey'', authPayload = User ''alice''\<rparr> [1, 2] [''read'']
      = ([ValidateUserClientForSecrets ''alice'' [S1, S2] [''read'']], Inr [S1, S2])"
proof -
  have l: "length (Secret_find_in sample_db [1, 2]) = length [1, 2 :: object_id]"
    by (simp add: Secret_find_in_1_2)
  note single = jwt_and_api_key_same_outcome[of sample_db 1 S1 sample_variables deny_all
      "''alice''" "[Member, Admin]" "[''read'']" "[1, 2]"]
  note batch = jwt_and_api_key_same_outcome[of sample_db 1 S1 sample_variables allow_all
      "''alice''" "[Member, Admin]" "[''read'']" "[1, 2]"]
  from single Secret_findById_S1
  have s: "validateClientForSecret sample_variables deny_all sample_db
        \<lparr>authMode = ''jwt'', authPayload = User ''alice''\<rparr> 1 [Member, Admin] [''read'']
      = ([ValidateUserClientForSecret ''alice'' S1 [Member, Admin] [''read'']],
         Inl (UnauthorizedRequestError ''Failed to validate membership''))"
    "validateClientForSecret sample_variables deny_all sample_db
        \<lparr>authMode = ''apiKey'', authPayload = User ''alice''\<rparr> 1 [Member, Admin] [''read'']
      = ([ValidateUserClientForSecret ''alice'' S1 [Member, Admin] [''read'']],
         Inl (UnauthorizedRequestError ''Failed to validate membership''))"
    by (simp_all add: sample_modes await_then_return_def deny_all_def)
  from batch l
  have b: "validateClientForSecrets sample_variables allow_all sample_db
        \<lparr>authMode = ''jwt'', authPayload = User ''alice''\<rparr> [1, 2] [''read'']
      = ([ValidateUserClientForSecrets ''alice'' [S1, S2] [''read'']], Inr [S1, S2])"
    "validateClientForSecrets sample_variables allow_all sample_db
        \<lparr>authMode = ''apiKey'', authPayload = User ''alice''\<rparr> [1, 2] [''read'']
      = ([ValidateUserClientForSecrets ''alice'' [S1, S2] [''read'']], Inr [S1, S2])"
    by (simp_all add: sample_modes await_then_return_def allow_all_def Secret_find_in_1_2)
  from Secret_findById_S1 l s b show ?thesis by blast
qed

section \<open>Duplicate identifiers in a batch\<close>

lemma filter_in_distinct_le:
  assumes "distinct (map f xs)"
  shows "length (filter (\<lambda>x. f x \<in> set ys) xs) \<le> card (set ys)"
proof -
  let ?zs = "filter (\<lambda>x. f x \<in> set ys) xs"
  have d: "distinct (map f ?zs)" using assms by (rule distinct_map_filter)
  have "length ?zs = length (map f ?zs)" by simp
  also have "\<dots> = card (set (map f ?zs))" using d by (simp only: distinct_card)
  also have "\<dots> \<le> card (set ys)" by (rule card_mono) auto
  finally show ?thesis .
qed

lemma duplicate_card_less: "\<not> distinct ys \<Longrightarrow> card (set ys) < length ys"
  using card_length[of ys] card_distinct[of ys] by force

text \<open>
  C9. In a collection whose documents have pairwise different \<open>_id\<close>s (Mongo's
  unique index on \<open>_id\<close>), a request list that names some identifier twice makes
  \<open>validateClientForSecrets\<close> throw \<open>BadRequestError\<close>, also when every listed
  secret exists: the query yields each matching document once, so fewer documents than
  the list has entries.
\<close>

theorem duplicate_ids_BadRequest:
  assumes "distinct (map secret_id db)" and "\<not> distinct secretIds"
  shows "validateClientForSecrets M V db authData secretIds requiredPermissions
         = ([], Inl (BadRequestError ''Failed to validate non-existent secrets''))"
proof -
  have "length (Secret_find_in db secretIds) < length secretIds"
    unfolding Secret_find_in_def
    using filter_in_distinct_le[OF assms(1), of secretIds] duplicate_card_less[OF assms(2)]
    by linarith
  then show ?thesis by (simp add: validateClientForSecrets_def throw_def)
qed

theorem duplicate_ids_BadRequest_witness:
  "distinct (map secret_id sample_db)
   \<and> \<not> distinct [1, 1 :: object_id]
   \<and> Secret_findById sample_db 1 = Some S1
   \<and> validateClientForSecrets sample_variables allow_all sample_db
        \<lparr>authMode = ''jwt'', authPayload = User ''alice''\<rparr> [1, 1] [''read'']
      = ([], Inl (BadRequestError ''Failed to validate non-existent secrets''))"
proof -
  have d: "distinct (map secret_id sample_db)" by (simp add: sample_db_ids)
  have n: "\<not> distinct [1, 1 :: object_id]" by simp
  from duplicate_ids_BadRequest[OF d n] d n Secret_findById_S1 show ?thesis by blast
qed

section \<open>Blind indexes\<close>

text \<open>
  Every index at which \<open>toString_base64\<close> reads the alphabet is below 64, so no
  read is out of range.
\<close>

lemma six_bits:
  assumes "\<not> bit w 6" and "\<not> bit w 7"
  shows "unat (w :: byte) < 64"
proof -
  have hi: "\<not> bit w n" if "6 \<le> n" for n
  proof (cases "n < 8")
    case True
    with that have "n = 6 \<or> n = 7" by arith
    with assms show ?thesis by auto
  next
    case False
    then show ?thesis by (auto dest: bit_imp_le_length)
  qed
  have lo: "n < 6" if "bit w n" for n
    using hi[of n] that by (cases "n < 6") simp_all
  have "w AND mask 6 = w"
    by (rule bit_word_eqI) (auto simp: bit_simps dest: lo)
  moreover have "w AND mask 6 < 2 ^ 6" by (rule and_mask_less') simp
  ultimately have "w < 64" by simp
  then show ?thesis by (simp add: word_less_nat_alt)
qed

lemma base64_index_in_range:
  fixes a b c :: byte
  shows "unat (drop_bit 2 a) < length base64_alphabet"
    and "unat (push_bit 4 (a AND 3) OR drop_bit 4 b) < length base64_alphabet"
    and "unat (push_bit 2 (b AND 15) OR drop_bit 6 c) < length base64_alphabet"
    and "unat (c AND 63) < length base64_alphabet"
    and "unat (push_bit 2 (b AND 15)) < length base64_alphabet"
    and "unat (push_bit 4 (a AND 3)) < length base64_alphabet"
proof -
  have n: "length base64_alphabet = 64" by (simp add: base64_alphabet_def)
  show "unat (drop_bit 2 a) < length base64_alphabet"
    unfolding n by (rule six_bits) (auto simp: bit_simps dest: bit_imp_le_length)
  show "unat (push_bit 4 (a AND 3) OR drop_bit 4 b) < length base64_alphabet"
    unfolding n by (rule six_bits) (auto simp: bit_simps dest: bit_imp_le_length)
  show "unat (push_bit 2 (b AND 15) OR drop_bit 6 c) < length base64_alphabet"
    unfolding n by (rule six_bits) (auto simp: bit_simps dest: bit_imp_le_length)
  show "unat (c AND 63) < length base64_alphabet"
    unfolding n by (rule six_bits) (auto simp: bit_simps dest: bit_imp_le_length)
  show "unat (push_bit 2 (b AND 15)) < length base64_alphabet"
    unfolding n by (rule six_bits) (auto simp: bit_simps dest: bit_imp_le_length)
  show "unat (push_bit 4 (a AND 3)) < length base64_alphabet"
    unfolding n by (rule six_bits) (auto simp: bit_simps dest: bit_imp_le_length)
qed


lemma createSecretBlindIndexHelper_result:
  "createSecretBlindIndexHelper argon2 src secretName workspaceId
   = (toString_base64
        (argon2 secretName
           \<lparr>hash_type = Argon2id, salt = map src [0..<16], saltLength = 16,
            memoryCost = 65536, hashLength = 32, parallelism = 1, raw = True\<rparr>),
      \<lambda>i. src (16 + i))"
  by (simp add: createSecretBlindIndexHelper_def crypto_randomBytes_def)

lemma createSecretBlindIndexHelper_ignores_workspace:
  "createSecretBlindIndexHelper argon2 src secretName workspaceId
   = createSecretBlindIndexHelper argon2 src secretName workspaceId'"
  by (simp add: createSecretBlindIndexHelper_result)


lemma upt_16: "[0..<16] = [0, 1, 2, 3, 4, 5, 6, 7, 8, 9, 10, 11, 12, 13, 14, 15]"
  by code_simp

lemma replicate_5: "replicate 5 x = [x, x, x, x, x]"
  by (simp add: eval_nat_numeral)

lemma sample_salt_first: "map sample_entropy [0..<16]
  = [0, 1, 2, 3, 4, 5, 6, 7, 8, 9, 10, 11, 12, 13, 14, 15]"
  by (simp add: upt_16 sample_entropy_def)

lemma sample_salt_second: "map (\<lambda>i. sample_entropy (16 + i)) [0..<16]
  = [16, 17, 18, 19, 20, 21, 22, 23, 24, 25, 26, 27, 28, 29, 30, 31]"
  by (simp add: upt_16 sample_entropy_def)

lemma first_index:
  "fst (createSecretBlindIndexHelper sample_argon2 sample_entropy ''DB_PASSWORD'' 101)
   = ''AAECAwQFBgcICQoLDA0OD0RCX1BBU1NXT1JEAAAAAAA=''"
  unfolding createSecretBlindIndexHelper_result fst_conv sample_argon2_def
  by (simp add: sample_salt_first replicate_5 byte_of_char_def base64_char_def base64_alphabet_def)

lemma second_index:
  "fst (createSecretBlindIndexHelper sample_argon2
          (snd (createSecretBlindIndexHelper sample_argon2 sample_entropy ''DB_PASSWORD'' 101))
          ''DB_PASSWORD'' 101)
   = ''EBESExQVFhcYGRobHB0eH0RCX1BBU1NXT1JEAAAAAAA=''"
  unfolding createSecretBlindIndexHelper_result fst_conv snd_conv sample_argon2_def
  by (simp add: sample_salt_second replicate_5 byte_of_char_def base64_char_def base64_alphabet_def)

lemma getSecretBlindIndexHelper_undefined:
  "getSecretBlindIndexHelper coll secretName workspaceId = None"
  by (simp add: getSecretBlindIndexHelper_def)



text \<open>
  C1 does not hold of the code. Two successive calls of
  \<open>createSecretBlindIndexHelper\<close> for the name \<open>DB_PASSWORD\<close> in the same
  workspace salt the hash with different random bytes, and return different values as
  soon as the hash depends on its salt: here the first call draws the bytes 0 to 15 and
  the second the bytes 16 to 31.
\<close>

theorem createSecretBlindIndexHelper_not_deterministic:
  "fst (createSecretBlindIndexHelper sample_argon2 sample_entropy ''DB_PASSWORD'' 101)
   \<noteq> fst (createSecretBlindIndexHelper sample_argon2
            (snd (createSecretBlindIndexHelper sample_argon2 sample_entropy ''DB_PASSWORD'' 101))
            ''DB_PASSWORD'' 101)"
  by (simp only: first_index second_index) simp

text \<open>
  C2 does not hold of the code. \<open>getSecretBlindIndexHelper\<close> derives nothing: for
  the name \<open>DB_PASSWORD\<close> in a workspace that has its salt record it resolves to
  \<open>undefined\<close>, which is no blind index at all.
\<close>

theorem getSecretBlindIndexHelper_returns_nothing:
  "getSecretBlindIndexHelper sample_salts ''DB_PASSWORD'' 101 = None"
  by (rule getSecretBlindIndexHelper_undefined)

end
